theory Spec2Isabelle
  imports Main
begin

section \<open>Documents, responses and the state of the backend\<close>

text \<open>
  The controllers of the backend are request handlers over a document store. A handler
  is modelled as a function from the state before the request to the state after it and
  the response it sends. An identifier is the text of a Mongo ObjectId; a JavaScript
  string is a \<open>string\<close>, its \<open>length\<close> the number of its code units.
\<close>

type_synonym objectId = string

datatype role = Admin | Member

datatype visibility = Public | Private | Hidden

record member =
  member_user :: objectId
  member_role :: role

record community =
  community_id :: objectId
  community_name :: string
  slug :: string
  community_description :: string
  categories :: "string list"
  coverImage :: "string option"
  visibility :: visibility
  community_admin :: objectId
  members :: "member list"
  bannedUsers :: "objectId list"
  memberCount :: int

record userdoc =
  user_id :: objectId
  user_username :: string
  user_email :: string
  user_password :: string
  user_bio :: string
  profileImage :: "string option"
  interests :: "string list"
  isEmailVerified :: bool
  isActive :: bool
  joinedCommunities :: "objectId list"
  emailVerificationOTP :: "string option"
  otpExpires :: "int option"
  resetPasswordToken :: "string option"
  resetPasswordExpires :: "int option"

datatype post_type = TextPost | ImagePost | VideoPost

record post =
  post_id :: objectId
  post_community :: string
  post_author :: objectId
  post_content :: string
  post_title :: string
  post_kind :: post_type
  images :: "string list"
  videoUrl :: "string option"
  isDeleted :: bool
  upvotes :: "objectId list"

datatype notif_data =
  OtpData string string
| PostRef string objectId
| Verified

record notification =
  notif_user :: objectId
  notif_type :: string
  notif_title :: string
  notif_message :: string
  notif_data :: notif_data

text \<open>The author fields that \<open>populate('author', 'username profileImage')\<close> selects.\<close>

record author_view =
  author_id :: objectId
  author_username :: string
  author_profileImage :: "string option"

record populated_post =
  pp_post :: post
  pp_author :: "author_view option"

record user_view =
  view_id :: objectId
  view_username :: string
  view_email :: string
  view_bio :: string
  view_profileImage :: "string option"
  view_isEmailVerified :: bool
  view_interests :: "string list"
  view_otp :: string

text \<open>
  The JSON envelope of a response: most handlers send \<open>success: true | false\<close>, the
  validation branches of \<open>register\<close> and \<open>resetPassword\<close> send \<open>status: 'fail'\<close>.
\<close>

datatype envelope = Success bool | StatusFail

datatype payload =
  NoPayload
| OtpField string
| CommunityDoc community
| JoinInfo objectId string int
| PostDoc "populated_post option"
| TokenAndUser string user_view

record response =
  status :: nat
  flag :: envelope
  message :: "string option"
  payload :: payload

definition reply :: "nat \<Rightarrow> envelope \<Rightarrow> string \<Rightarrow> response" where
  "reply code fl msg = \<lparr>status = code, flag = fl, message = Some msg, payload = NoPayload\<rparr>"

text \<open>An emission \<open>io.to(room).emit(event, post)\<close> of the real-time channel.\<close>

record emission =
  room :: string
  event :: string
  emitted_post :: "populated_post option"

record state =
  communities :: "community list"
  users :: "userdoc list"
  posts :: "post list"
  notifications :: "notification list"
  files :: "string list"
  emitted :: "emission list"

text \<open>What a handler can throw and its \<open>catch\<close> block can see.\<close>

datatype error =
  TypeError string
| ValidationError string
| DuplicateKey
| Error string

definition error_message :: "error \<Rightarrow> string" where
  "error_message e =
     (case e of TypeError m \<Rightarrow> m | ValidationError m \<Rightarrow> m | DuplicateKey \<Rightarrow> ''E11000 duplicate key error'' | Error m \<Rightarrow> m)"

text \<open>
  A field of a request body is absent or a string; \<open>!field\<close> holds of an absent field
  and of the empty string.
\<close>

definition falsy :: "string option \<Rightarrow> bool" where
  "falsy v = (case v of None \<Rightarrow> True | Some s \<Rightarrow> s = [])"

definition text_of :: "string option \<Rightarrow> string" where
  "text_of v = (case v of None \<Rightarrow> [] | Some s \<Rightarrow> s)"

definition addToSet :: "'a \<Rightarrow> 'a list \<Rightarrow> 'a list" where
  "addToSet x xs = (if x \<in> set xs then xs else xs @ [x])"

section \<open>communityController.js\<close>

subsection \<open>findCommunity\<close>

text \<open>
  \<open>findCommunity\<close> runs one or two \<open>findOne\<close> queries. The model returns, with the
  community found, the queries it ran in their order. \<open>mongoose.Types.ObjectId.isValid\<close>
  belongs to the driver: it is the parameter \<open>isValid\<close>. A query by \<open>_id\<close> compares the
  stored identifier with the ObjectId the driver casts the input to (the hex digits of a
  valid identifier may be written in either case): the cast is the parameter \<open>castId\<close>.
  The populate and select options shape the document that is returned, not which
  document is found, and are left out.
\<close>

datatype query = ById string | BySlug string

definition executeQuery :: "(string \<Rightarrow> objectId) \<Rightarrow> state \<Rightarrow> query \<Rightarrow> community option" where
  "executeQuery castId s q =
     (case q of
        ById i \<Rightarrow> find (\<lambda>c. community_id c = castId i) (communities s)
      | BySlug g \<Rightarrow> find (\<lambda>c. slug c = g) (communities s))"

definition findCommunity ::
  "(string \<Rightarrow> bool) \<Rightarrow> (string \<Rightarrow> objectId) \<Rightarrow> state \<Rightarrow> string
     \<Rightarrow> community option \<times> query list" where
  "findCommunity isValid castId s idOrSlug =
     (let isObjectId = isValid idOrSlug;
          attempt1 = (if isObjectId then (executeQuery castId s (ById idOrSlug), [ById idOrSlug])
                      else (None, []))
      in if fst attempt1 = None
         then (executeQuery castId s (BySlug idOrSlug), snd attempt1 @ [BySlug idOrSlug])
         else attempt1)"

subsection \<open>The methods of the Community model\<close>

text \<open>
  Modelled from the spec: \<open>isMember\<close> and \<open>isBanned\<close> of Models/Community.js, which is
  not among the sources; the spec has them as pure membership tests against
  \<open>members\<close> and \<open>bannedUsers\<close>.
\<close>

definition isMember :: "community \<Rightarrow> objectId \<Rightarrow> bool" where
  "isMember c u = (u \<in> set (map member_user (members c)))"

definition isBanned :: "community \<Rightarrow> objectId \<Rightarrow> bool" where
  "isBanned c u = (u \<in> set (bannedUsers c))"

text \<open>
  Modelled from the spec: \<open>addMember\<close> of Models/Community.js, which is not among the
  sources. The spec has it append \<open>{user, role: member}\<close> to \<open>members\<close> and increment
  \<open>memberCount\<close>; the error it throws for a member is the one \<open>joinCommunity\<close> catches.
\<close>

definition addMember :: "community \<Rightarrow> objectId \<Rightarrow> error + community" where
  "addMember c u =
     (if isMember c u then Inl (Error ''User is already a member'')
      else Inr (c\<lparr>members := members c @ [\<lparr>member_user = u, member_role = Member\<rparr>],
                  memberCount := memberCount c + 1\<rparr>))"

definition saveCommunity :: "community \<Rightarrow> state \<Rightarrow> state" where
  "saveCommunity c s =
     s\<lparr>communities := map (\<lambda>x. if community_id x = community_id c then c else x) (communities s)\<rparr>"

definition addJoinedCommunity :: "objectId \<Rightarrow> objectId \<Rightarrow> state \<Rightarrow> state" where
  "addJoinedCommunity userId cid s =
     s\<lparr>users := map (\<lambda>u. if user_id u = userId
                           then u\<lparr>joinedCommunities := addToSet cid (joinedCommunities u)\<rparr>
                           else u) (users s)\<rparr>"

subsection \<open>joinCommunity\<close>

definition joinCommunity ::
  "(string \<Rightarrow> bool) \<Rightarrow> (string \<Rightarrow> objectId) \<Rightarrow> state \<Rightarrow> string \<Rightarrow> objectId
     \<Rightarrow> state \<times> response" where
  "joinCommunity isValid castId s idOrSlug userId =
     (case fst (findCommunity isValid castId s idOrSlug) of
        None \<Rightarrow> (s, reply 404 (Success False) ''Community not found.'')
      | Some c \<Rightarrow>
          if isBanned c userId
          then (s, reply 403 (Success False) ''You are banned from joining this community.'')
          else if isMember c userId
          then (s, reply 400 (Success False) ''You are already a member of this community.'')
          else if visibility c = Private
          then (s, reply 403 (Success False)
                  ''This is a private community. Membership requires admin approval or a separate request process.'')
          else
            (case addMember c userId of
               Inl e \<Rightarrow>
                 if error_message e = ''User is already a member''
                 then (s, reply 400 (Success False) (error_message e))
                 else (s, reply 500 (Success False) ''Server error while joining community.'')
             | Inr c' \<Rightarrow>
                 (addJoinedCommunity userId (community_id c') (saveCommunity c' s),
                  \<lparr>status = 200, flag = Success True,
                   message = Some (''Successfully joined community: '' @ community_name c'),
                   payload = JoinInfo (community_id c') (slug c') (memberCount c')\<rparr>)))"

subsection \<open>createCommunity\<close>

text \<open>
  \<open>categories\<close> of the request body (and \<open>interests\<close> of a registration) is absent,
  one string or an array of strings; an array, also the empty one, is truthy.
\<close>

datatype text_or_array = Text string | Array "string list"

definition falsy_field :: "text_or_array option \<Rightarrow> bool" where
  "falsy_field v =
     (case v of None \<Rightarrow> True | Some (Text c) \<Rightarrow> c = [] | Some (Array cs) \<Rightarrow> False)"

record upload =
  upload_path :: string
  upload_filename :: string
  upload_originalname :: string
  upload_size :: nat

record community_request =
  req_name :: "string option"
  req_description :: "string option"
  req_categories :: "text_or_array option"
  req_cover :: "upload option"
  req_user :: objectId

text \<open>
  What Models/Community.js and the store decide when a community is created: the
  identifier of the new document, the slug derived from the name and the default
  visibility.
\<close>

record community_schema =
  newCommunityId :: objectId
  slugOf :: "string \<Rightarrow> string"
  defaultVisibility :: visibility

text \<open>
  Modelled from the spec: \<open>Community.create\<close>, whose schema (Models/Community.js) is not
  among the sources. The spec has it persist the community as given, with a slug derived
  from the name, and fail on a duplicate name or slug (error code 11000 in the handler).
\<close>

definition Community_create ::
  "community_schema \<Rightarrow> state \<Rightarrow> string \<Rightarrow> string \<Rightarrow> string list \<Rightarrow> string option \<Rightarrow> objectId
     \<Rightarrow> member list \<Rightarrow> int \<Rightarrow> error + (state \<times> community)" where
  "Community_create sch s nm descr cats cover adm mems cnt =
     (if list_ex (\<lambda>c. community_name c = nm \<or> slug c = slugOf sch nm) (communities s)
      then Inl DuplicateKey
      else
        (let c = \<lparr>community_id = newCommunityId sch, community_name = nm, slug = slugOf sch nm,
                  community_description = descr, categories = cats, coverImage = cover,
                  visibility = defaultVisibility sch, community_admin = adm, members = mems,
                  bannedUsers = [], memberCount = cnt\<rparr>
         in Inr (s\<lparr>communities := communities s @ [c]\<rparr>, c)))"

definition createCommunity ::
  "community_schema \<Rightarrow> state \<Rightarrow> community_request \<Rightarrow> state \<times> response" where
  "createCommunity sch s r =
     (if falsy (req_name r) \<or> falsy (req_description r) \<or> falsy_field (req_categories r)
      then (s, reply 400 (Success False) ''Please provide name, description, and categories.'')
      else
        (let userId = req_user r;
             categoryArray = (case req_categories r of
                                Some (Array cs) \<Rightarrow> cs
                              | Some (Text c) \<Rightarrow> [c]
                              | None \<Rightarrow> []);
             cover = (case req_cover r of
                        Some f \<Rightarrow> Some (''/uploads/'' @ upload_filename f)
                      | None \<Rightarrow> None)
         in case Community_create sch s (text_of (req_name r))
                   (text_of (req_description r)) categoryArray cover userId
                   [\<lparr>member_user = userId, member_role = Admin\<rparr>] 1 of
              Inr (s', newCommunity) \<Rightarrow>
                (addJoinedCommunity userId (community_id newCommunity) s',
                 \<lparr>status = 201, flag = Success True,
                  message = Some ''Community created successfully.'',
                  payload = CommunityDoc newCommunity\<rparr>)
            | Inl DuplicateKey \<Rightarrow>
                (s, reply 400 (Success False) ''A community with this name already exists.'')
            | Inl (ValidationError m) \<Rightarrow> (s, reply 400 (Success False) m)
            | Inl e \<Rightarrow> (s, reply 500 (Success False) ''Server error during community creation.'')))"

section \<open>postController.js\<close>

text \<open>
  What reaches the post controller from outside it: the base URL of the configuration,
  \<open>path.extname\<close> followed by \<open>toLowerCase\<close>, whether \<open>req.app.get('io')\<close> gives
  an io instance (a call on \<open>undefined\<close> throws a TypeError), the identifier the store
  gives the next post, the validation of the Post schema (Models/Post.js, not among the
  sources: the message of its ValidationError, if any) and whether the bulk insert of
  notifications fails.
\<close>

record post_env =
  API_BASE_URL :: string
  extname_lower :: "string \<Rightarrow> string"
  io_registered :: bool
  newPostId :: objectId
  postSchemaError :: "post \<Rightarrow> string option"
  insertManyFails :: bool

record post_request =
  body_content :: "string option"
  body_communityId :: "string option"
  body_title :: "string option"
  post_file :: "upload option"
  post_user_id :: objectId
  post_username :: string

text \<open>
  \<open>findById\<close>: the first document with the identifier; an identifier that no document
  has, well-formed or not, finds nothing.
\<close>

definition Community_findById :: "state \<Rightarrow> string \<Rightarrow> community option" where
  "Community_findById s i = find (\<lambda>c. community_id c = i) (communities s)"

definition Post_findById :: "state \<Rightarrow> string \<Rightarrow> post option" where
  "Post_findById s i = find (\<lambda>p. post_id p = i) (posts s)"

definition populate_author :: "state \<Rightarrow> post \<Rightarrow> populated_post" where
  "populate_author s p =
     \<lparr>pp_post = p,
      pp_author = map_option
        (\<lambda>u. \<lparr>author_id = user_id u, author_username = user_username u,
               author_profileImage = profileImage u\<rparr>)
        (find (\<lambda>u. user_id u = post_author p) (users s))\<rparr>"

definition post_notification :: "community \<Rightarrow> post \<Rightarrow> string \<Rightarrow> string \<Rightarrow> objectId \<Rightarrow> notification" where
  "post_notification c p communityId authorUsername memberId =
     \<lparr>notif_user = memberId,
      notif_type = ''post'',
      notif_title = ''New Post in '' @ community_name c,
      notif_message = authorUsername @ '' posted: '' @ take 50 (post_content p) @ ''...'',
      notif_data = PostRef communityId (post_id p)\<rparr>"

text \<open>
  \<open>notifyCommunityMembers\<close> catches whatever its body throws: a failing bulk insert
  leaves the notifications as they were.
\<close>

definition notifyCommunityMembers ::
  "post_env \<Rightarrow> state \<Rightarrow> post \<Rightarrow> string \<Rightarrow> objectId \<Rightarrow> string \<Rightarrow> state" where
  "notifyCommunityMembers env s p communityId authorId authorUsername =
     (case Community_findById s communityId of
        None \<Rightarrow> s
      | Some c \<Rightarrow>
          (let memberIds = map member_user (filter (\<lambda>m. member_user m \<noteq> authorId) (members c));
               new = map (post_notification c p communityId authorUsername) memberIds
           in if insertManyFails env then s
              else s\<lparr>notifications := notifications s @ new\<rparr>))"

text \<open>
  Modelled from the spec: \<open>Post.create\<close>, whose schema (Models/Post.js) is not among the
  sources. The post is persisted as given when the schema accepts it, and a
  ValidationError is thrown otherwise.
\<close>

definition Post_create :: "post_env \<Rightarrow> state \<Rightarrow> post \<Rightarrow> error + (state \<times> post)" where
  "Post_create env s p =
     (case postSchemaError env p of
        Some m \<Rightarrow> Inl (ValidationError m)
      | None \<Rightarrow> Inr (s\<lparr>posts := posts s @ [p]\<rparr>, p))"

definition or_else :: "string \<Rightarrow> string \<Rightarrow> string" where
  "or_else m d = (if m = [] then d else m)"

definition emit :: "post_env \<Rightarrow> state \<Rightarrow> string \<Rightarrow> string \<Rightarrow> populated_post option \<Rightarrow> error + state" where
  "emit env s rm ev pp =
     (if io_registered env
      then Inr (s\<lparr>emitted := emitted s @ [\<lparr>room = rm, event = ev, emitted_post = pp\<rparr>]\<rparr>)
      else Inl (TypeError ''Cannot read properties of undefined (reading 'to')''))"

definition newPostData :: "post_env \<Rightarrow> post_request \<Rightarrow> post" where
  "newPostData env r =
     (let content = text_of (body_content r);
          base = \<lparr>post_id = newPostId env,
                  post_community = text_of (body_communityId r),
                  post_author = post_user_id r,
                  post_content = content,
                  post_title = (if falsy (body_title r) then take 50 content else text_of (body_title r)),
                  post_kind = TextPost, images = [], videoUrl = None,
                  isDeleted = False, upvotes = []\<rparr>
      in case post_file r of
           None \<Rightarrow> base
         | Some f \<Rightarrow>
             (let filePath = API_BASE_URL env @ ''/uploads/'' @ upload_filename f;
                  fileExtension = extname_lower env (upload_originalname f)
              in if fileExtension \<in> set [''.jpg'', ''.jpeg'', ''.png'', ''.gif'', ''.webp'']
                 then base\<lparr>post_kind := ImagePost, images := [filePath]\<rparr>
                 else if fileExtension \<in> set [''.mp4'', ''.mov'', ''.webm'']
                 then base\<lparr>post_kind := VideoPost, videoUrl := Some filePath\<rparr>
                 else base\<lparr>post_kind := ImagePost, images := [filePath]\<rparr>))"

text \<open>
  \<open>createPost\<close>. The emission stands in the handler's \<open>try\<close> block, so what it throws
  reaches the handler's \<open>catch\<close>, after the post was persisted. The fan-out is started
  without \<open>await\<close>; the state returned is the one after it has finished.
\<close>

definition createPost :: "post_env \<Rightarrow> state \<Rightarrow> post_request \<Rightarrow> state \<times> response" where
  "createPost env s r =
     (if falsy (body_content r) \<or> falsy (body_communityId r)
      then (s, reply 400 (Success False) ''Content and community ID are required.'')
      else
        (case Post_create env s (newPostData env r) of
           Inl e \<Rightarrow> (s, reply 500 (Success False) (or_else (error_message e) ''Failed to create post.''))
         | Inr (s1, newPost) \<Rightarrow>
             (let communityId = text_of (body_communityId r);
                  populatedPost = map_option (populate_author s1) (Post_findById s1 (post_id newPost))
              in case emit env s1 communityId ''newPost'' populatedPost of
                   Inl e \<Rightarrow>
                     (s1, reply 500 (Success False) (or_else (error_message e) ''Failed to create post.''))
                 | Inr s2 \<Rightarrow>
                     (notifyCommunityMembers env s2 newPost communityId (post_user_id r) (post_username r),
                      \<lparr>status = 201, flag = Success True, message = None,
                       payload = PostDoc populatedPost\<rparr>))))"

text \<open>
  Modelled from the spec: the instance method \<open>upvote\<close> of Models/Post.js, which is not
  among the sources. The spec has it toggle the user in the post's upvotes: added if
  absent, removed if present.
\<close>

definition upvote :: "post \<Rightarrow> objectId \<Rightarrow> post" where
  "upvote p userId =
     (if userId \<in> set (upvotes p) then p\<lparr>upvotes := removeAll userId (upvotes p)\<rparr>
      else p\<lparr>upvotes := upvotes p @ [userId]\<rparr>)"

definition savePost :: "post \<Rightarrow> state \<Rightarrow> state" where
  "savePost p s = s\<lparr>posts := map (\<lambda>x. if post_id x = post_id p then p else x) (posts s)\<rparr>"

definition togglePostVote :: "post_env \<Rightarrow> state \<Rightarrow> string \<Rightarrow> objectId \<Rightarrow> state \<times> response" where
  "togglePostVote env s postId userId =
     (case Post_findById s postId of
        None \<Rightarrow> (s, reply 404 (Success False) ''Post not found.'')
      | Some p \<Rightarrow>
          (let s1 = savePost (upvote p userId) s;
               populatedPost = map_option (populate_author s1) (Post_findById s1 (post_id p))
           in case emit env s1 (post_community p) ''postUpdated'' populatedPost of
                Inl e \<Rightarrow>
                  (s1, reply 500 (Success False) (or_else (error_message e) ''Failed to toggle vote.''))
              | Inr s2 \<Rightarrow>
                  (s2, \<lparr>status = 200, flag = Success True,
                        message = Some ''Vote updated successfully.'',
                        payload = PostDoc populatedPost\<rparr>)))"

section \<open>AuthController.js\<close>

text \<open>
  What reaches the auth controller from outside it: \<open>MAX_IMAGE_SIZE\<close> of config.js and
  the text of its number of megabytes, \<open>Date.now()\<close>, the random code of the next
  one-time password, the identifier the store gives the next user, \<open>jwt.sign\<close>, the hash of the pre-save hook, the
  preparation of the interests (lines 175 to 195 of the controller, which cannot throw)
  and the validation of the User schema (Models/UserModel.js, not among the sources: the
  message of its ValidationError, if any). Emoji of the notification titles are left out.
\<close>

record auth_env =
  MAX_IMAGE_SIZE :: nat
  limit_text :: string
  now :: int
  freshOTP :: string
  newUserId :: objectId
  sign :: "objectId \<Rightarrow> string"
  hash :: "string \<Rightarrow> string"
  prepareInterests :: "text_or_array option \<Rightarrow> string list"
  userSchemaError :: "userdoc \<Rightarrow> string option"

definition ten_minutes :: int where
  "ten_minutes = 10 * 60 * 1000"

definition saveUser :: "userdoc \<Rightarrow> state \<Rightarrow> state" where
  "saveUser u s = s\<lparr>users := map (\<lambda>x. if user_id x = user_id u then u else x) (users s)\<rparr>"

definition Notification_create :: "notification \<Rightarrow> state \<Rightarrow> state" where
  "Notification_create n s = s\<lparr>notifications := notifications s @ [n]\<rparr>"

text \<open>
  Modelled from the spec: the one-time-password methods of Models/UserModel.js, which is
  not among the sources. Generating a code stores it with an absolute expiry ten minutes
  ahead, over any earlier code for that purpose; a submitted code verifies only if a code
  is stored, is unexpired and is the same.
\<close>

definition getResetPasswordOTP :: "auth_env \<Rightarrow> userdoc \<Rightarrow> userdoc \<times> string" where
  "getResetPasswordOTP env u =
     (u\<lparr>resetPasswordToken := Some (freshOTP env),
        resetPasswordExpires := Some (now env + ten_minutes)\<rparr>, freshOTP env)"

definition verifyResetPasswordOTP :: "auth_env \<Rightarrow> userdoc \<Rightarrow> string \<Rightarrow> bool" where
  "verifyResetPasswordOTP env u otp =
     (case (resetPasswordToken u, resetPasswordExpires u) of
        (Some code, Some expires) \<Rightarrow> now env \<le> expires \<and> code = otp
      | _ \<Rightarrow> False)"

definition generateOTP :: "auth_env \<Rightarrow> userdoc \<Rightarrow> userdoc \<times> string" where
  "generateOTP env u =
     (u\<lparr>emailVerificationOTP := Some (freshOTP env),
        otpExpires := Some (now env + ten_minutes)\<rparr>, freshOTP env)"

subsection \<open>forgotPassword\<close>

definition forgotPassword :: "auth_env \<Rightarrow> state \<Rightarrow> string option \<Rightarrow> state \<times> response" where
  "forgotPassword env s body_email =
     (if falsy body_email
      then (s, reply 400 (Success False) ''Please provide the registered email address.'')
      else
        (case find (\<lambda>u. user_email u = text_of body_email) (users s) of
           None \<Rightarrow>
             (s, reply 200 (Success True)
                   ''If the account exists, a password reset code has been sent to your notifications.'')
         | Some u \<Rightarrow>
             (let gen = getResetPasswordOTP env u;
                  resetOTP = snd gen;
                  s1 = saveUser (fst gen) s;
                  s2 = Notification_create
                         \<lparr>notif_user = user_id u, notif_type = ''otp'',
                          notif_title = ''Password Reset Code'',
                          notif_message = ''Your one-time code for password reset is: '' @ resetOTP
                                          @ ''. This code will expire in 10 minutes.'',
                          notif_data = OtpData resetOTP ''password_reset''\<rparr> s1
              in (s2, \<lparr>status = 200, flag = Success True,
                       message = Some ''Password reset code successfully sent to your notifications.'',
                       payload = OtpField resetOTP\<rparr>))))"

subsection \<open>resetPassword\<close>

definition resetPassword ::
  "auth_env \<Rightarrow> state \<Rightarrow> string option \<Rightarrow> string option \<Rightarrow> string option \<Rightarrow> state \<times> response" where
  "resetPassword env s body_email body_otp body_newPassword =
     (if falsy body_email \<or> falsy body_otp \<or> falsy body_newPassword
      then (s, reply 400 (Success False) ''Please provide email, OTP, and the new password.'')
      else if length (text_of body_newPassword) < 6
      then (s, reply 400 StatusFail ''New password must be at least 6 characters long.'')
      else
        (case find (\<lambda>u. user_email u = text_of body_email) (users s) of
           None \<Rightarrow> (s, reply 404 (Success False) ''User not found.'')
         | Some u \<Rightarrow>
             if verifyResetPasswordOTP env u (text_of body_otp)
             then
               (saveUser (u\<lparr>user_password := hash env (text_of body_newPassword),
                             resetPasswordToken := None, resetPasswordExpires := None\<rparr>) s,
                reply 200 (Success True)
                  ''Password successfully reset! You can now log in with your new password.'')
             else
               (saveUser (u\<lparr>resetPasswordToken := None, resetPasswordExpires := None\<rparr>) s,
                reply 400 (Success False)
                  ''Invalid or expired OTP. Please restart the forgot password process.'')))"

subsection \<open>register\<close>

text \<open>
  The controller binds \<open>fs\<close> to the default export of \<open>fs/promises\<close> (line 4). That
  module has \<open>unlink\<close> and no \<open>unlinkSync\<close>: \<open>fs.unlinkSync\<close> is \<open>undefined\<close>, and
  the call \<open>fs.unlinkSync(req.file.path)\<close> throws a TypeError, which the handler's
  \<open>catch\<close> block receives. \<open>fs.unlink\<close> removes the file; its rejection for a file that
  is not there is logged and dropped.
\<close>

definition fs_unlinkSync :: "string \<Rightarrow> state \<Rightarrow> error + state" where
  "fs_unlinkSync path s = Inl (TypeError ''fs.unlinkSync is not a function'')"

definition fs_unlink :: "string \<Rightarrow> state \<Rightarrow> state" where
  "fs_unlink path s = s\<lparr>files := removeAll path (files s)\<rparr>"

text \<open>
  \<open>if (req.file) fs.unlinkSync(req.file.path); return res.status(400).json(...)\<close>
\<close>

definition unlink_and_reply :: "upload option \<Rightarrow> state \<Rightarrow> response \<Rightarrow> error + (state \<times> response)" where
  "unlink_and_reply file s resp =
     (case file of
        None \<Rightarrow> Inr (s, resp)
      | Some f \<Rightarrow>
          (case fs_unlinkSync (upload_path f) s of
             Inl e \<Rightarrow> Inl e
           | Inr s' \<Rightarrow> Inr (s', resp)))"

text \<open>
  \<open>email.match(/.+@.+\..+/)\<close>: somewhere in the string stand a character, an \<open>@\<close>, one
  or more characters, a dot and a character, where a character is anything but a line
  terminator.
\<close>

definition line_terminator :: "char \<Rightarrow> bool" where
  "line_terminator c = (c = CHR 0x0A \<or> c = CHR 0x0D)"

fun dot_then_char :: "string \<Rightarrow> bool" where
  "dot_then_char (d # z # rest) = (d = CHR ''.'' \<and> \<not> line_terminator z)"
| "dot_then_char _ = False"

fun chars_dot_char :: "string \<Rightarrow> bool" where
  "chars_dot_char [] = False"
| "chars_dot_char (y # rest) = (\<not> line_terminator y \<and> (dot_then_char rest \<or> chars_dot_char rest))"

fun email_match :: "string \<Rightarrow> bool" where
  "email_match (x # a # rest) =
     ((\<not> line_terminator x \<and> a = CHR ''@'' \<and> chars_dot_char rest) \<or> email_match (a # rest))"
| "email_match _ = False"

record register_request =
  body_username :: "string option"
  body_reg_email :: "string option"
  body_password :: "string option"
  body_bio :: "string option"
  body_interests :: "text_or_array option"
  req_file :: "upload option"

text \<open>
  Modelled from the spec: \<open>User.create\<close>, whose schema (Models/UserModel.js) is not among
  the sources. The user is persisted unverified, with the password hashed, when the
  schema accepts it, and a ValidationError is thrown otherwise.
\<close>

definition User_create ::
  "auth_env \<Rightarrow> state \<Rightarrow> string \<Rightarrow> string \<Rightarrow> string \<Rightarrow> string \<Rightarrow> string option \<Rightarrow> string list
     \<Rightarrow> error + (state \<times> userdoc)" where
  "User_create env s uname mail pw b img ints =
     (let u = \<lparr>user_id = newUserId env, user_username = uname, user_email = mail,
               user_password = hash env pw, user_bio = b, profileImage = img, interests = ints,
               isEmailVerified = False, isActive = True, joinedCommunities = [],
               emailVerificationOTP = None, otpExpires = None,
               resetPasswordToken = None, resetPasswordExpires = None\<rparr>
      in case userSchemaError env u of
           Some m \<Rightarrow> Inl (ValidationError m)
         | None \<Rightarrow> Inr (s\<lparr>users := users s @ [u]\<rparr>, u))"

text \<open>The \<open>try\<close> block of \<open>register\<close>: what it throws, or the state and the response.\<close>

definition register_try ::
  "auth_env \<Rightarrow> state \<Rightarrow> register_request \<Rightarrow> error + (state \<times> response)" where
  "register_try env s r =
     (let username = text_of (body_username r);
          email = text_of (body_reg_email r);
          password = text_of (body_password r);
          bio = text_of (body_bio r)
      in
      if falsy (body_username r) \<or> falsy (body_reg_email r) \<or> falsy (body_password r)
         \<or> falsy (body_bio r) \<or> req_file r = None \<or> falsy_field (body_interests r)
      then Inr (s, reply 400 (Success False)
                     ''Please provide username, email, password, bio, and profile image'')
      else if length password < 6
      then unlink_and_reply (req_file r) s
             (reply 400 StatusFail ''Password must be at least 6 characters long.'')
      else if \<not> email_match email
      then unlink_and_reply (req_file r) s (reply 400 StatusFail ''Invalid email format.'')
      else if length bio > 250
      then unlink_and_reply (req_file r) s
             (reply 400 StatusFail ''Bio cannot exceed 250 characters.'')
      else if (case req_file r of None \<Rightarrow> False | Some f \<Rightarrow> upload_size f > MAX_IMAGE_SIZE env)
      then unlink_and_reply (req_file r) s
             (reply 400 StatusFail (''Image file size exceeds the '' @ limit_text env @ ''MB limit.''))
      else
        (let userInterests = prepareInterests env (body_interests r)
         in case find (\<lambda>u. user_email u = email \<or> user_username u = username) (users s) of
              Some existingUser \<Rightarrow>
                unlink_and_reply (req_file r) s
                  (reply 400 (Success False)
                     (if user_email existingUser = email then ''Email already registered''
                      else ''Username already taken''))
            | None \<Rightarrow>
                (let profileImagePath = map_option (\<lambda>f. ''uploads/'' @ upload_filename f) (req_file r)
                 in case User_create env s username email password bio profileImagePath userInterests of
                      Inl e \<Rightarrow> Inl e
                    | Inr (s1, user) \<Rightarrow>
                        (let gen = generateOTP env user;
                             otp = snd gen;
                             s2 = saveUser (fst gen) s1;
                             s3 = Notification_create
                                    \<lparr>notif_user = user_id user, notif_type = ''otp'',
                                     notif_title = ''Email Verification OTP'',
                                     notif_message = ''Your OTP for email verification is: '' @ otp
                                                     @ ''. This code will expire in 10 minutes.'',
                                     notif_data = OtpData otp ''email_verification''\<rparr> s2;
                             token = sign env (user_id user)
                         in Inr (s3,
                              \<lparr>status = 201, flag = Success True,
                               message = Some ''Registration successful. Please check your notifications for OTP.'',
                               payload = TokenAndUser token
                                 \<lparr>view_id = user_id user, view_username = user_username user,
                                  view_email = user_email user, view_bio = user_bio user,
                                  view_profileImage = profileImage user,
                                  view_isEmailVerified = isEmailVerified user,
                                  view_interests = userInterests, view_otp = otp\<rparr>\<rparr>)))))"

text \<open>
  \<open>register\<close>: the \<open>try\<close> block and its \<open>catch\<close>, which removes the staged file with
  \<open>fs.unlink\<close> and answers 400 for a ValidationError of the schema, 500 for anything else.
\<close>

definition register :: "auth_env \<Rightarrow> state \<Rightarrow> register_request \<Rightarrow> state \<times> response" where
  "register env s r =
     (case register_try env s r of
        Inr done \<Rightarrow> done
      | Inl e \<Rightarrow>
          (let s' = (case req_file r of None \<Rightarrow> s | Some f \<Rightarrow> fs_unlink (upload_path f) s)
           in case e of
                ValidationError m \<Rightarrow> (s', reply 400 (Success False) (''Validation error: '' @ m))
              | _ \<Rightarrow> (s', reply 500 (Success False)
                           (or_else (error_message e) ''Server error during registration''))))"

section \<open>Concrete states and requests\<close>

text \<open>
  The invariant of the member count, and the states that creating and joining communities
  reach from a store without communities.
\<close>

definition count_matches :: "state \<Rightarrow> bool" where
  "count_matches s = list_all (\<lambda>c. memberCount c = int (length (members c))) (communities s)"

inductive reachable :: "state \<Rightarrow> bool" where
  start: "communities s = [] \<Longrightarrow> reachable s"
| created: "reachable s \<Longrightarrow> reachable (fst (createCommunity sch s r))"
| joined: "reachable s \<Longrightarrow> reachable (fst (joinCommunity isValid castId s idOrSlug userId))"

definition sample_community ::
  "objectId \<Rightarrow> string \<Rightarrow> visibility \<Rightarrow> member list \<Rightarrow> objectId list \<Rightarrow> community" where
  "sample_community i sl vis mems banned =
     \<lparr>community_id = i, community_name = sl, slug = sl, community_description = ''about'',
      categories = [''tech''], coverImage = None, visibility = vis, community_admin = ''u1'',
      members = mems, bannedUsers = banned, memberCount = int (length mems)\<rparr>"

definition empty_state :: state where
  "empty_state =
     \<lparr>communities = [], users = [], posts = [], notifications = [], files = [], emitted = []\<rparr>"

definition id_a :: objectId where
  "id_a = ''aaaaaaaaaaaaaaaaaaaaaaaa''"

definition id_b :: objectId where
  "id_b = ''bbbbbbbbbbbbbbbbbbbbbbbb''"

definition is24 :: "string \<Rightarrow> bool" where
  "is24 x = (length x = 24)"

text \<open>A cast for the examples: the hex digits of the identifier in lower case.\<close>

definition fold_hex :: "string \<Rightarrow> objectId" where
  "fold_hex x =
     map (\<lambda>c. if c = CHR ''A'' then CHR ''a'' else if c = CHR ''B'' then CHR ''b''
               else if c = CHR ''C'' then CHR ''c'' else if c = CHR ''D'' then CHR ''d''
               else if c = CHR ''E'' then CHR ''e'' else if c = CHR ''F'' then CHR ''f''
               else c) x"

definition id_a_upper :: string where
  "id_a_upper = ''AAAAAAAAAAAAAAAAAAAAAAAA''"

text \<open>A store where the slug of the first community is the identifier of the second.\<close>

definition slug_clash_state :: state where
  "slug_clash_state = empty_state\<lparr>communities :=
      [sample_community id_b id_a Public [] [], sample_community id_a ''general'' Public [] []]\<rparr>"

text \<open>A private community with one member and one banned user.\<close>

definition private_state :: state where
  "private_state = empty_state\<lparr>communities :=
      [sample_community id_a ''club'' Private
         [\<lparr>member_user = ''u1'', member_role = Admin\<rparr>] [''u2'']]\<rparr>"

definition sample_schema :: community_schema where
  "sample_schema = \<lparr>newCommunityId = id_a, slugOf = (\<lambda>n. n), defaultVisibility = Public\<rparr>"

definition sample_community_request :: community_request where
  "sample_community_request =
     \<lparr>req_name = Some ''general'', req_description = Some ''about'',
      req_categories = Some (Array [''tech'']), req_cover = None, req_user = ''u1''\<rparr>"

definition created_state :: state where
  "created_state = fst (createCommunity sample_schema empty_state sample_community_request)"

definition joined_state :: state where
  "joined_state = fst (joinCommunity is24 fold_hex created_state id_a ''u2'')"

definition sample_post_env :: post_env where
  "sample_post_env =
     \<lparr>API_BASE_URL = ''http://localhost:3001'', extname_lower = (\<lambda>n. ''.png''),
      io_registered = True, newPostId = ''p1'', postSchemaError = (\<lambda>p. None),
      insertManyFails = False\<rparr>"

definition sample_post :: post where
  "sample_post =
     \<lparr>post_id = ''p1'', post_community = id_a, post_author = ''u1'', post_content = ''hello'',
      post_title = ''hello'', post_kind = TextPost, images = [], videoUrl = None,
      isDeleted = False, upvotes = [''u7'']\<rparr>"

definition voted_state :: state where
  "voted_state = empty_state\<lparr>posts := [sample_post]\<rparr>"

text \<open>A community of the author \<open>u1\<close> and three other members.\<close>

definition four_members :: "member list" where
  "four_members =
     [\<lparr>member_user = ''u1'', member_role = Admin\<rparr>, \<lparr>member_user = ''u2'', member_role = Member\<rparr>,
      \<lparr>member_user = ''u3'', member_role = Member\<rparr>, \<lparr>member_user = ''u4'', member_role = Member\<rparr>]"

definition posting_state :: state where
  "posting_state = empty_state\<lparr>communities := [sample_community id_a ''general'' Public four_members []]\<rparr>"

definition sample_post_request :: post_request where
  "sample_post_request =
     \<lparr>body_content = Some ''hello'', body_communityId = Some id_a, body_title = None,
      post_file = None, post_user_id = ''u1'', post_username = ''ann''\<rparr>"

text \<open>An application on which no io instance was registered.\<close>

definition no_io_env :: post_env where
  "no_io_env = sample_post_env\<lparr>io_registered := False\<rparr>"

text \<open>A request of a user the store does not know, for a community that does not exist.\<close>

definition stranger_post_request :: post_request where
  "stranger_post_request =
     \<lparr>body_content = Some ''hello'', body_communityId = Some id_b, body_title = None,
      post_file = None, post_user_id = ''u9'', post_username = ''zed''\<rparr>"

definition sample_auth_env :: auth_env where
  "sample_auth_env =
     \<lparr>MAX_IMAGE_SIZE = 5242880, limit_text = ''5'', now = 1000, freshOTP = ''654321'',
      newUserId = ''u5'', sign = (\<lambda>i. ''token-'' @ i), hash = (\<lambda>p. ''hashed-'' @ p),
      prepareInterests = (\<lambda>v. case v of Some (Array xs) \<Rightarrow> xs | Some (Text x) \<Rightarrow> [x] | None \<Rightarrow> []),
      userSchemaError = (\<lambda>u. None)\<rparr>"

definition staged_upload :: upload where
  "staged_upload =
     \<lparr>upload_path = ''uploads/profileImage-1.png'', upload_filename = ''profileImage-1.png'',
      upload_originalname = ''me.png'', upload_size = 1024\<rparr>"

text \<open>The store after the upload middleware has staged the file of a registration.\<close>

definition staged_state :: state where
  "staged_state = empty_state\<lparr>files := [''uploads/profileImage-1.png'']\<rparr>"

definition register_request_with_bio :: "string \<Rightarrow> register_request" where
  "register_request_with_bio b =
     \<lparr>body_username = Some ''ann'', body_reg_email = Some ''ann@example.com'',
      body_password = Some ''secret1'', body_bio = Some b,
      body_interests = Some (Array [''tech'']), req_file = Some staged_upload\<rparr>"

text \<open>A registration that staged a file and left the username out.\<close>

definition no_username_request :: register_request where
  "no_username_request = (register_request_with_bio ''hello'')\<lparr>body_username := None\<rparr>"

definition ann :: userdoc where
  "ann =
     \<lparr>user_id = ''u1'', user_username = ''ann'', user_email = ''ann@example.com'',
      user_password = ''hashed-secret1'', user_bio = ''hello'', profileImage = None,
      interests = [], isEmailVerified = True, isActive = True, joinedCommunities = [],
      emailVerificationOTP = None, otpExpires = None,
      resetPasswordToken = Some ''123456'', resetPasswordExpires = Some 5000\<rparr>"

definition ann_state :: state where
  "ann_state = empty_state\<lparr>users := [ann]\<rparr>"

section \<open>Properties of the controllers\<close>

subsection \<open>Lookups in lists of documents\<close>

lemma find_by_key_distinct:
  "distinct (map f xs) \<Longrightarrow> c \<in> set xs \<Longrightarrow> f c = k \<Longrightarrow> find (\<lambda>x. f x = k) xs = Some c"
  by (induction xs) (auto simp: rev_image_eqI)

lemma find_None_iff_key: "find (\<lambda>x. f x = k) xs = None \<longleftrightarrow> (\<forall>x\<in>set xs. f x \<noteq> k)"
  by (auto simp: find_None_iff)

lemma find_Some_holds: "find P xs = Some y \<Longrightarrow> P y \<and> y \<in> set xs"
  by (auto simp: find_Some_iff)

subsection \<open>Resolving a community\<close>

text \<open>
  C1. \<open>findCommunity\<close> queries by identifier first, and only when the input is a valid
  object id; it queries by slug only when the first query found nothing or was not made.
  So a community whose identifier is the one the input denotes (identifiers being
  unique) is the one returned, whatever slugs the other communities have, and nothing is
  returned exactly when neither query matches.
\<close>

theorem findCommunity_id_before_slug:
  "snd (findCommunity isValid castId s x) =
     (if isValid x
      then (if executeQuery castId s (ById x) = None then [ById x, BySlug x] else [ById x])
      else [BySlug x])
   \<and> (isValid x \<longrightarrow> c \<in> set (communities s) \<longrightarrow> community_id c = castId x
        \<longrightarrow> distinct (map community_id (communities s))
        \<longrightarrow> fst (findCommunity isValid castId s x) = Some c)
   \<and> (fst (findCommunity isValid castId s x) = None
        \<longleftrightarrow> (\<not> isValid x \<or> (\<forall>d\<in>set (communities s). community_id d \<noteq> castId x))
            \<and> (\<forall>d\<in>set (communities s). slug d \<noteq> x))"
proof (intro conjI impI)
  show "snd (findCommunity isValid castId s x) =
     (if isValid x
      then (if executeQuery castId s (ById x) = None then [ById x, BySlug x] else [ById x])
      else [BySlug x])"
    by (simp add: findCommunity_def Let_def)
next
  assume "isValid x" "c \<in> set (communities s)" "community_id c = castId x"
    "distinct (map community_id (communities s))"
  then show "fst (findCommunity isValid castId s x) = Some c"
    by (simp add: findCommunity_def Let_def executeQuery_def find_by_key_distinct)
next
  show "fst (findCommunity isValid castId s x) = None
        \<longleftrightarrow> (\<not> isValid x \<or> (\<forall>d\<in>set (communities s). community_id d \<noteq> castId x))
            \<and> (\<forall>d\<in>set (communities s). slug d \<noteq> x)"
    by (auto simp: findCommunity_def Let_def executeQuery_def find_None_iff_key
        dest: find_Some_holds)
qed

theorem findCommunity_id_before_slug_witness:
  "is24 id_a \<and> is24 id_a_upper
   \<and> fold_hex id_a = id_a \<and> fold_hex id_a_upper = id_a
   \<and> slug (hd (communities slug_clash_state)) = id_a
   \<and> findCommunity is24 fold_hex slug_clash_state id_a
       = (Some (sample_community id_a ''general'' Public [] []), [ById id_a])
   \<and> findCommunity is24 fold_hex slug_clash_state id_a_upper
       = (Some (sample_community id_a ''general'' Public [] []), [ById id_a_upper])
   \<and> findCommunity is24 fold_hex slug_clash_state ''general''
       = (Some (sample_community id_a ''general'' Public [] []), [BySlug ''general''])
   \<and> fst (findCommunity is24 fold_hex slug_clash_state ''nothing'') = None"
  using findCommunity_id_before_slug [of is24 fold_hex slug_clash_state id_a
      "sample_community id_a ''general'' Public [] []"]
    findCommunity_id_before_slug [of is24 fold_hex slug_clash_state id_a_upper
      "sample_community id_a ''general'' Public [] []"]
    findCommunity_id_before_slug [of is24 fold_hex slug_clash_state "''general''"]
    findCommunity_id_before_slug [of is24 fold_hex slug_clash_state "''nothing''"]
  by (simp add: is24_def fold_hex_def id_a_def id_a_upper_def id_b_def slug_clash_state_def
      empty_state_def sample_community_def executeQuery_def findCommunity_def)

subsection \<open>Joining and creating communities\<close>

text \<open>
  C9. Once the community is resolved, \<open>joinCommunity\<close> tests its guards in the order
  banned, already a member, private: a banned user gets the 403 of the ban whatever the
  visibility is, a member who is not banned gets the 400 of the membership also in a
  private community, and the 403 of the private community is left for the others.
\<close>

theorem joinCommunity_guard_order:
  "fst (findCommunity isValid castId s x) = Some c \<Longrightarrow>
     (isBanned c u \<longrightarrow>
        joinCommunity isValid castId s x u
          = (s, reply 403 (Success False) ''You are banned from joining this community.''))
   \<and> (\<not> isBanned c u \<longrightarrow> isMember c u \<longrightarrow>
        joinCommunity isValid castId s x u
          = (s, reply 400 (Success False) ''You are already a member of this community.''))
   \<and> (\<not> isBanned c u \<longrightarrow> \<not> isMember c u \<longrightarrow> visibility c = Private \<longrightarrow>
        joinCommunity isValid castId s x u
          = (s, reply 403 (Success False)
               ''This is a private community. Membership requires admin approval or a separate request process.''))"
  by (simp add: joinCommunity_def)

theorem joinCommunity_guard_order_witness:
  "visibility (sample_community id_a ''club'' Private [\<lparr>member_user = ''u1'', member_role = Admin\<rparr>] [''u2'']) = Private
   \<and> joinCommunity is24 fold_hex private_state ''club'' ''u2''
       = (private_state, reply 403 (Success False) ''You are banned from joining this community.'')
   \<and> joinCommunity is24 fold_hex private_state ''club'' ''u1''
       = (private_state, reply 400 (Success False) ''You are already a member of this community.'')
   \<and> status (snd (joinCommunity is24 fold_hex private_state ''club'' ''u3'')) = 403"
proof -
  let ?c = "sample_community id_a ''club'' Private [\<lparr>member_user = ''u1'', member_role = Admin\<rparr>] [''u2'']"
  have found: "fst (findCommunity is24 fold_hex private_state ''club'') = Some ?c"
    by (simp add: findCommunity_def executeQuery_def is24_def private_state_def empty_state_def
        sample_community_def)
  have b: "isBanned ?c ''u2''" and m: "\<not> isBanned ?c ''u1''" "isMember ?c ''u1''"
    and n: "\<not> isBanned ?c ''u3''" "\<not> isMember ?c ''u3''" and v: "visibility ?c = Private"
    by (simp_all add: isBanned_def isMember_def sample_community_def)
  show ?thesis
    using joinCommunity_guard_order [OF found, of "''u2''"]
      joinCommunity_guard_order [OF found, of "''u1''"]
      joinCommunity_guard_order [OF found, of "''u3''"] b m n v
    by (simp add: reply_def)
qed

lemma addMember_count:
  "addMember c u = Inr c' \<Longrightarrow>
     members c' = members c @ [\<lparr>member_user = u, member_role = Member\<rparr>]
     \<and> memberCount c' = memberCount c + 1 \<and> community_id c' = community_id c"
  by (auto simp: addMember_def split: if_splits)

lemma communities_addJoinedCommunity [simp]:
  "communities (addJoinedCommunity u i s) = communities s"
  by (simp add: addJoinedCommunity_def)

lemma communities_saveCommunity:
  "communities (saveCommunity c s)
     = map (\<lambda>x. if community_id x = community_id c then c else x) (communities s)"
  by (simp add: saveCommunity_def)

lemma findCommunity_in_store:
  "fst (findCommunity isValid castId s x) = Some c \<Longrightarrow> c \<in> set (communities s)"
  by (auto simp: findCommunity_def Let_def executeQuery_def split: if_splits
      dest: find_Some_holds)

lemma joinCommunity_cases:
  "fst (joinCommunity isValid castId s x u) = s
   \<or> (\<exists>c c'. fst (findCommunity isValid castId s x) = Some c \<and> addMember c u = Inr c'
        \<and> status (snd (joinCommunity isValid castId s x u)) = 200
        \<and> fst (joinCommunity isValid castId s x u)
            = addJoinedCommunity u (community_id c') (saveCommunity c' s))"
  by (auto simp: joinCommunity_def reply_def split: option.splits sum.splits)

lemma joinCommunity_success:
  "status (snd (joinCommunity isValid castId s x u)) = 200 \<Longrightarrow>
     \<exists>c c'. fst (findCommunity isValid castId s x) = Some c \<and> addMember c u = Inr c'
        \<and> fst (joinCommunity isValid castId s x u)
            = addJoinedCommunity u (community_id c') (saveCommunity c' s)"
  by (auto simp: joinCommunity_def reply_def split: option.splits sum.splits if_splits)

lemma count_matches_join: "count_matches s \<Longrightarrow> count_matches (fst (joinCommunity isValid castId s x u))"
proof -
  assume inv: "count_matches s"
  from joinCommunity_cases [of isValid castId s x u] show ?thesis
  proof
    assume "fst (joinCommunity isValid castId s x u) = s"
    with inv show ?thesis by simp
  next
    assume "\<exists>c c'. fst (findCommunity isValid castId s x) = Some c \<and> addMember c u = Inr c'
        \<and> status (snd (joinCommunity isValid castId s x u)) = 200
        \<and> fst (joinCommunity isValid castId s x u)
            = addJoinedCommunity u (community_id c') (saveCommunity c' s)"
    then obtain c c' where f: "fst (findCommunity isValid castId s x) = Some c"
      and a: "addMember c u = Inr c'"
      and r: "fst (joinCommunity isValid castId s x u)
            = addJoinedCommunity u (community_id c') (saveCommunity c' s)"
      by blast
    from f have "c \<in> set (communities s)" by (rule findCommunity_in_store)
    with inv have "memberCount c = int (length (members c))"
      by (simp add: count_matches_def list_all_iff)
    with addMember_count [OF a] have "memberCount c' = int (length (members c'))" by simp
    with inv show ?thesis
      by (auto simp: r count_matches_def list_all_iff communities_saveCommunity)
  qed
qed

lemma createCommunity_cases:
  "fst (createCommunity sch s r) = s \<and> status (snd (createCommunity sch s r)) \<noteq> 201
   \<or> (\<exists>c. status (snd (createCommunity sch s r)) = 201
        \<and> payload (snd (createCommunity sch s r)) = CommunityDoc c
        \<and> members c = [\<lparr>member_user = req_user r, member_role = Admin\<rparr>]
        \<and> memberCount c = 1
        \<and> community_admin c = req_user r
        \<and> communities (fst (createCommunity sch s r)) = communities s @ [c])"
  by (auto simp: createCommunity_def Community_create_def reply_def Let_def
      split: option.splits sum.splits error.splits)

lemma count_matches_create: "count_matches s \<Longrightarrow> count_matches (fst (createCommunity sch s r))"
  using createCommunity_cases [of sch s r]
  by (auto simp: count_matches_def)

lemma reachable_count_matches: "reachable s \<Longrightarrow> count_matches s"
proof (induction rule: reachable.induct)
  case (start s)
  then show ?case by (simp add: count_matches_def)
next
  case (created s sch r)
  from created.IH show ?case by (rule count_matches_create)
next
  case (joined s isValid castId idOrSlug userId)
  from joined.IH show ?case by (rule count_matches_join)
qed

lemma find_after_replace:
  "c \<in> set xs \<Longrightarrow> f c' = f c \<Longrightarrow>
     find (\<lambda>x. f x = f c) (map (\<lambda>x. if f x = f c' then c' else x) xs) = Some c'"
  by (induction xs) auto

text \<open>
  C2. \<open>memberCount\<close> is the length of \<open>members\<close> in every community of every store
  that creating and joining communities reach, and both handlers keep it so. A community
  that \<open>createCommunity\<close> creates has the creator, as admin, for its one member and the
  count 1; a successful \<open>joinCommunity\<close> appends one member entry for the user and adds
  one to the count.
\<close>

theorem memberCount_is_length:
  "(reachable s \<longrightarrow> count_matches s)
   \<and> (count_matches s \<longrightarrow> count_matches (fst (createCommunity sch s r))
        \<and> count_matches (fst (joinCommunity isValid castId s x u)))
   \<and> (status (snd (createCommunity sch s r)) = 201 \<longrightarrow>
        (\<exists>c. payload (snd (createCommunity sch s r)) = CommunityDoc c
           \<and> communities (fst (createCommunity sch s r)) = communities s @ [c]
           \<and> members c = [\<lparr>member_user = req_user r, member_role = Admin\<rparr>]
           \<and> memberCount c = 1))
   \<and> (status (snd (joinCommunity isValid castId s x u)) = 200 \<longrightarrow>
        (\<exists>c c'. fst (findCommunity isValid castId s x) = Some c
           \<and> Community_findById (fst (joinCommunity isValid castId s x u)) (community_id c) = Some c'
           \<and> members c' = members c @ [\<lparr>member_user = u, member_role = Member\<rparr>]
           \<and> memberCount c' = memberCount c + 1))"
proof (intro conjI impI)
  assume "reachable s"
  then show "count_matches s" by (rule reachable_count_matches)
next
  assume "count_matches s"
  then show "count_matches (fst (createCommunity sch s r))" by (rule count_matches_create)
next
  assume "count_matches s"
  then show "count_matches (fst (joinCommunity isValid castId s x u))" by (rule count_matches_join)
next
  assume "status (snd (createCommunity sch s r)) = 201"
  with createCommunity_cases [of sch s r]
  show "\<exists>c. payload (snd (createCommunity sch s r)) = CommunityDoc c
           \<and> communities (fst (createCommunity sch s r)) = communities s @ [c]
           \<and> members c = [\<lparr>member_user = req_user r, member_role = Admin\<rparr>]
           \<and> memberCount c = 1"
    by blast
next
  assume "status (snd (joinCommunity isValid castId s x u)) = 200"
  from joinCommunity_success [OF this]
  obtain c c' where f: "fst (findCommunity isValid castId s x) = Some c"
    and a: "addMember c u = Inr c'"
    and r: "fst (joinCommunity isValid castId s x u)
            = addJoinedCommunity u (community_id c') (saveCommunity c' s)"
    by blast
  from f have mem: "c \<in> set (communities s)" by (rule findCommunity_in_store)
  from addMember_count [OF a] have same: "community_id c' = community_id c" by simp
  have "Community_findById (fst (joinCommunity isValid castId s x u)) (community_id c) = Some c'"
    using find_after_replace [of c "communities s" community_id c', OF mem same]
    by (simp add: r Community_findById_def communities_saveCommunity)
  with f addMember_count [OF a]
  show "\<exists>c c'. fst (findCommunity isValid castId s x) = Some c
           \<and> Community_findById (fst (joinCommunity isValid castId s x u)) (community_id c) = Some c'
           \<and> members c' = members c @ [\<lparr>member_user = u, member_role = Member\<rparr>]
           \<and> memberCount c' = memberCount c + 1"
    by blast
qed

lemma created_state_eq:
  "created_state = empty_state\<lparr>communities :=
     [sample_community id_a ''general'' Public [\<lparr>member_user = ''u1'', member_role = Admin\<rparr>] []]\<rparr>"
  by (simp add: created_state_def createCommunity_def Community_create_def sample_schema_def Let_def
      sample_community_request_def empty_state_def falsy_def falsy_field_def text_of_def
      addJoinedCommunity_def sample_community_def)

lemma joined_state_eq:
  "joined_state = empty_state\<lparr>communities :=
     [sample_community id_a ''general'' Public
        [\<lparr>member_user = ''u1'', member_role = Admin\<rparr>, \<lparr>member_user = ''u2'', member_role = Member\<rparr>] []]\<rparr>"
  by (simp add: joined_state_def created_state_eq joinCommunity_def findCommunity_def
      executeQuery_def is24_def fold_hex_def id_a_def empty_state_def sample_community_def isBanned_def
      isMember_def addMember_def saveCommunity_def addJoinedCommunity_def)

theorem memberCount_is_length_witness:
  "reachable joined_state
   \<and> count_matches joined_state
   \<and> status (snd (createCommunity sample_schema empty_state sample_community_request)) = 201
   \<and> map memberCount (communities created_state) = [1]
   \<and> status (snd (joinCommunity is24 fold_hex created_state id_a ''u2'')) = 200
   \<and> map memberCount (communities joined_state) = [2]
   \<and> map (length \<circ> members) (communities joined_state) = [2]"
proof -
  have "reachable empty_state" by (rule reachable.start) (simp add: empty_state_def)
  then have "reachable created_state" unfolding created_state_def by (rule reachable.created)
  then have re: "reachable joined_state" unfolding joined_state_def by (rule reachable.joined)
  have c: "status (snd (createCommunity sample_schema empty_state sample_community_request)) = 201"
    by (simp add: createCommunity_def Community_create_def sample_schema_def Let_def
      sample_community_request_def empty_state_def falsy_def falsy_field_def text_of_def)
  have j: "status (snd (joinCommunity is24 fold_hex created_state id_a ''u2'')) = 200"
    by (simp add: created_state_eq joinCommunity_def findCommunity_def
      executeQuery_def is24_def fold_hex_def id_a_def empty_state_def sample_community_def isBanned_def
      isMember_def addMember_def)
  from memberCount_is_length [of joined_state sample_schema sample_community_request is24 fold_hex id_a "''u2''"] re
  have "count_matches joined_state" by blast
  with re c j show ?thesis
    by (simp add: created_state_eq joined_state_eq empty_state_def sample_community_def)
qed

subsection \<open>Voting on a post\<close>

lemma posts_togglePostVote:
  "Post_findById s pid = Some p \<Longrightarrow>
     posts (fst (togglePostVote env s pid u))
       = map (\<lambda>x. if post_id x = post_id p then upvote p u else x) (posts s)"
  by (simp add: togglePostVote_def Let_def savePost_def emit_def upvote_def)

lemma post_id_upvote [simp]: "post_id (upvote p u) = post_id p"
  by (simp add: upvote_def)

lemma Post_findById_togglePostVote:
  assumes "Post_findById s pid = Some p"
  shows "Post_findById (fst (togglePostVote env s pid u)) pid = Some (upvote p u)"
proof -
  from assms have "post_id p = pid \<and> p \<in> set (posts s)"
    unfolding Post_findById_def by (rule find_Some_holds)
  then have mem: "p \<in> set (posts s)" and key: "post_id p = pid" by simp_all
  have "find (\<lambda>x. post_id x = post_id p)
          (map (\<lambda>x. if post_id x = post_id (upvote p u) then upvote p u else x) (posts s))
        = Some (upvote p u)"
    by (rule find_after_replace [OF mem]) simp
  with key show ?thesis
    by (simp add: Post_findById_def posts_togglePostVote [OF assms])
qed

lemma set_upvotes_upvote:
  "set (upvotes (upvote p u))
     = (if u \<in> set (upvotes p) then set (upvotes p) - {u} else insert u (set (upvotes p)))"
  by (simp add: upvote_def)

text \<open>
  C3. For a post that exists, one call of \<open>togglePostVote\<close> removes the user from the
  upvote set if present and adds the user if absent, and a second call by the same user
  brings the upvote set of the post back to what it was.
\<close>

theorem togglePostVote_involution:
  "Post_findById s pid = Some p \<Longrightarrow>
     map_option (set \<circ> upvotes) (Post_findById (fst (togglePostVote env s pid u)) pid)
       = Some (if u \<in> set (upvotes p) then set (upvotes p) - {u} else insert u (set (upvotes p)))
   \<and> map_option (set \<circ> upvotes)
        (Post_findById (fst (togglePostVote env' (fst (togglePostVote env s pid u)) pid u)) pid)
       = Some (set (upvotes p))"
proof -
  assume f: "Post_findById s pid = Some p"
  have one: "Post_findById (fst (togglePostVote env s pid u)) pid = Some (upvote p u)"
    using f by (rule Post_findById_togglePostVote)
  have two: "Post_findById (fst (togglePostVote env' (fst (togglePostVote env s pid u)) pid u)) pid
               = Some (upvote (upvote p u) u)"
    using one by (rule Post_findById_togglePostVote)
  have restored: "set (upvotes (upvote (upvote p u) u)) = set (upvotes p)"
    by (auto simp: set_upvotes_upvote)
  have first: "map_option (set \<circ> upvotes) (Post_findById (fst (togglePostVote env s pid u)) pid)
       = Some (if u \<in> set (upvotes p) then set (upvotes p) - {u} else insert u (set (upvotes p)))"
    by (simp add: one set_upvotes_upvote)
  have second: "map_option (set \<circ> upvotes)
        (Post_findById (fst (togglePostVote env' (fst (togglePostVote env s pid u)) pid u)) pid)
       = Some (set (upvotes p))"
    by (simp add: two restored)
  from first second show ?thesis by (rule conjI)
qed

theorem togglePostVote_involution_witness:
  "Post_findById voted_state ''p1'' = Some sample_post
   \<and> map_option upvotes (Post_findById (fst (togglePostVote sample_post_env voted_state ''p1'' ''u2'')) ''p1'')
       = Some [''u7'', ''u2'']
   \<and> map_option (set \<circ> upvotes)
        (Post_findById (fst (togglePostVote sample_post_env
           (fst (togglePostVote sample_post_env voted_state ''p1'' ''u2'')) ''p1'' ''u2'')) ''p1'')
       = Some {''u7''}
   \<and> map_option (set \<circ> upvotes)
        (Post_findById (fst (togglePostVote sample_post_env
           (fst (togglePostVote sample_post_env voted_state ''p1'' ''u7'')) ''p1'' ''u7'')) ''p1'')
       = Some {''u7''}"
proof -
  have f: "Post_findById voted_state ''p1'' = Some sample_post"
    by (simp add: Post_findById_def voted_state_def empty_state_def sample_post_def)
  have one: "map_option upvotes (Post_findById (fst (togglePostVote sample_post_env voted_state ''p1'' ''u2'')) ''p1'')
       = Some [''u7'', ''u2'']"
    by (simp add: Post_findById_togglePostVote [OF f] upvote_def sample_post_def)
  from togglePostVote_involution [OF f, of sample_post_env "''u2''" sample_post_env]
    togglePostVote_involution [OF f, of sample_post_env "''u7''" sample_post_env]
  show ?thesis using f one by (simp add: sample_post_def)
qed

subsection \<open>Creating a post\<close>

lemma filter_other_length:
  "distinct (map f xs) \<Longrightarrow> a \<in> f ` set xs \<Longrightarrow> length (filter (\<lambda>m. f m \<noteq> a) xs) + 1 = length xs"
proof (induction xs)
  case Nil
  then show ?case by simp
next
  case (Cons x xs)
  show ?case
  proof (cases "f x = a")
    case True
    with Cons.prems have "a \<notin> f ` set xs" by auto
    then have "filter (\<lambda>m. f m \<noteq> a) xs = xs" by (auto simp: filter_id_conv)
    with True show ?thesis by simp
  next
    case False
    with Cons show ?thesis by auto
  qed
qed

lemma Community_findById_frame [simp]:
  "Community_findById (s\<lparr>posts := ps\<rparr>) i = Community_findById s i"
  "Community_findById (s\<lparr>emitted := es\<rparr>) i = Community_findById s i"
  by (simp_all add: Community_findById_def)

lemma createPost_created:
  assumes "status (snd (createPost env s r)) = 201"
  shows "\<not> falsy (body_content r) \<and> \<not> falsy (body_communityId r)
     \<and> postSchemaError env (newPostData env r) = None \<and> io_registered env
     \<and> (\<exists>es. fst (createPost env s r)
           = notifyCommunityMembers env (s\<lparr>posts := posts s @ [newPostData env r], emitted := es\<rparr>)
               (newPostData env r) (text_of (body_communityId r)) (post_user_id r) (post_username r))"
  using assms
  by (auto simp: createPost_def Post_create_def emit_def reply_def Let_def
      split: if_splits option.splits)

lemma createPost_accepts:
  assumes "\<not> falsy (body_content r)" "\<not> falsy (body_communityId r)"
    "postSchemaError env (newPostData env r) = None" "io_registered env"
  shows "status (snd (createPost env s r)) = 201"
    and "posts (fst (createPost env s r)) = posts s @ [newPostData env r]"
  using assms
  by (auto simp: createPost_def Post_create_def emit_def Let_def notifyCommunityMembers_def
      split: option.splits)

lemma notifications_notify:
  assumes "Community_findById s cid = Some X" "\<not> insertManyFails env"
  shows "notifications (notifyCommunityMembers env s p cid a nm)
     = notifications s
       @ map (post_notification X p cid nm)
           (map member_user (filter (\<lambda>m. member_user m \<noteq> a) (members X)))"
  using assms by (simp add: notifyCommunityMembers_def)

lemma notif_user_post_notification [simp]: "notif_user (post_notification X p cid nm m) = m"
  by (simp add: post_notification_def)

lemma newPostData_insertMany [simp]:
  "newPostData (env\<lparr>insertManyFails := b\<rparr>) r = newPostData env r"
  by (simp add: newPostData_def Let_def cong: option.case_cong if_cong)

lemma Post_create_insertMany [simp]:
  "Post_create (env\<lparr>insertManyFails := b\<rparr>) s p = Post_create env s p"
  by (simp add: Post_create_def)

lemma emit_insertMany [simp]:
  "emit (env\<lparr>insertManyFails := b\<rparr>) s rm ev pp = emit env s rm ev pp"
  by (simp add: emit_def)

lemma createPost_response_insertMany:
  "snd (createPost (env\<lparr>insertManyFails := b\<rparr>) s r) = snd (createPost env s r)"
  by (simp add: createPost_def Let_def split: sum.splits prod.splits)

lemma populate_author_communities [simp]:
  "populate_author (s\<lparr>communities := cs, posts := ps\<rparr>) = populate_author (s\<lparr>posts := ps\<rparr>)"
  by (simp add: fun_eq_iff populate_author_def)

lemma createPost_response_communities:
  "snd (createPost env (s\<lparr>communities := cs\<rparr>) r) = snd (createPost env s r)"
  by (simp add: createPost_def Post_create_def emit_def Let_def Post_findById_def
      split: option.splits)

lemma createPost_posts_communities:
  "posts (fst (createPost env (s\<lparr>communities := cs\<rparr>) r)) = posts (fst (createPost env s r))"
  by (simp add: createPost_def Post_create_def emit_def Let_def notifyCommunityMembers_def
      split: option.splits)

text \<open>
  C4. When \<open>createPost\<close> answers 201 for author A and an existing community X, and the
  bulk insert does not fail, the fan-out adds exactly one notification for each member
  entry of X whose user is not A, in the order of the members: one less than the number
  of members when A is a member and no user is entered twice. Whether the bulk insert
  fails or not does not change the response.
\<close>

theorem createPost_fan_out:
  assumes "status (snd (createPost env s r)) = 201"
    and "Community_findById s (text_of (body_communityId r)) = Some X"
  shows "(\<not> insertManyFails env \<longrightarrow>
            (\<exists>new. notifications (fst (createPost env s r)) = notifications s @ new
               \<and> map notif_user new
                   = map member_user (filter (\<lambda>m. member_user m \<noteq> post_user_id r) (members X))
               \<and> (isMember X (post_user_id r) \<longrightarrow> distinct (map member_user (members X))
                    \<longrightarrow> length new + 1 = length (members X))))
       \<and> snd (createPost (env\<lparr>insertManyFails := b\<rparr>) s r) = snd (createPost env s r)
       \<and> status (snd (createPost (env\<lparr>insertManyFails := True\<rparr>) s r)) = 201"
proof (intro conjI impI)
  assume ok: "\<not> insertManyFails env"
  let ?others = "filter (\<lambda>m. member_user m \<noteq> post_user_id r) (members X)"
  let ?new = "map (post_notification X (newPostData env r) (text_of (body_communityId r))
                 (post_username r)) (map member_user ?others)"
  from createPost_created [OF assms(1)] obtain es where
    st: "fst (createPost env s r)
           = notifyCommunityMembers env (s\<lparr>posts := posts s @ [newPostData env r], emitted := es\<rparr>)
               (newPostData env r) (text_of (body_communityId r)) (post_user_id r) (post_username r)"
    by blast
  have n: "notifications (fst (createPost env s r)) = notifications s @ ?new"
    unfolding st using assms(2) ok by (subst notifications_notify) simp_all
  have u: "map notif_user ?new = map member_user ?others"
    by (simp add: comp_def)
  have l: "isMember X (post_user_id r) \<longrightarrow> distinct (map member_user (members X))
             \<longrightarrow> length ?new + 1 = length (members X)"
    using filter_other_length [of member_user "members X" "post_user_id r"]
    by (simp add: isMember_def)
  from n u l
  show "\<exists>new. notifications (fst (createPost env s r)) = notifications s @ new
               \<and> map notif_user new
                   = map member_user (filter (\<lambda>m. member_user m \<noteq> post_user_id r) (members X))
               \<and> (isMember X (post_user_id r) \<longrightarrow> distinct (map member_user (members X))
                    \<longrightarrow> length new + 1 = length (members X))"
    by blast
next
  show "snd (createPost (env\<lparr>insertManyFails := b\<rparr>) s r) = snd (createPost env s r)"
    by (rule createPost_response_insertMany)
next
  show "status (snd (createPost (env\<lparr>insertManyFails := True\<rparr>) s r)) = 201"
    using assms(1) by (simp add: createPost_response_insertMany)
qed

lemma createPost_sample:
  "createPost sample_post_env posting_state sample_post_request
     = (posting_state
          \<lparr>posts := [newPostData sample_post_env sample_post_request],
           notifications :=
             map (post_notification (sample_community id_a ''general'' Public four_members [])
                    (newPostData sample_post_env sample_post_request) id_a ''ann'')
               [''u2'', ''u3'', ''u4''],
           emitted := [\<lparr>room = id_a, event = ''newPost'',
                        emitted_post = Some \<lparr>pp_post = newPostData sample_post_env sample_post_request,
                                              pp_author = None\<rparr>\<rparr>]\<rparr>,
        \<lparr>status = 201, flag = Success True, message = None,
         payload = PostDoc (Some \<lparr>pp_post = newPostData sample_post_env sample_post_request,
                                   pp_author = None\<rparr>)\<rparr>)"
  by (simp add: createPost_def Post_create_def emit_def Let_def notifyCommunityMembers_def
      Community_findById_def Post_findById_def populate_author_def
      sample_post_env_def posting_state_def sample_post_request_def empty_state_def
      sample_community_def four_members_def falsy_def text_of_def newPostData_def id_a_def)

theorem createPost_fan_out_witness:
  "status (snd (createPost sample_post_env posting_state sample_post_request)) = 201
   \<and> Community_findById posting_state (text_of (body_communityId sample_post_request))
       = Some (sample_community id_a ''general'' Public four_members [])
   \<and> length (members (sample_community id_a ''general'' Public four_members [])) = 4
   \<and> map notif_user (notifications (fst (createPost sample_post_env posting_state sample_post_request)))
       = [''u2'', ''u3'', ''u4'']
   \<and> status (snd (createPost (sample_post_env\<lparr>insertManyFails := True\<rparr>) posting_state
                     sample_post_request)) = 201"
proof -
  have a: "status (snd (createPost sample_post_env posting_state sample_post_request)) = 201"
    by (simp add: createPost_sample)
  have b: "Community_findById posting_state (text_of (body_communityId sample_post_request))
       = Some (sample_community id_a ''general'' Public four_members [])"
    by (simp add: Community_findById_def posting_state_def sample_post_request_def
        empty_state_def sample_community_def text_of_def)
  from createPost_fan_out [OF a b, of True] a b show ?thesis
    by (simp add: createPost_sample sample_community_def four_members_def)
qed

text \<open>
  The emission is not guarded: with no io instance registered it throws after the post
  was persisted, the handler answers 500 and the fan-out does not run.
\<close>

theorem createPost_broadcast_failure:
  "emit no_io_env posting_state id_a ''newPost'' None
     = Inl (TypeError ''Cannot read properties of undefined (reading 'to')'')
   \<and> status (snd (createPost no_io_env posting_state sample_post_request)) = 500
   \<and> flag (snd (createPost no_io_env posting_state sample_post_request)) = Success False
   \<and> posts (fst (createPost no_io_env posting_state sample_post_request))
       = [newPostData no_io_env sample_post_request]
   \<and> notifications (fst (createPost no_io_env posting_state sample_post_request)) = []"
  by (simp add: createPost_def Post_create_def emit_def Let_def reply_def
      no_io_env_def sample_post_env_def posting_state_def sample_post_request_def
      empty_state_def falsy_def text_of_def id_a_def)

text \<open>
  C10. \<open>createPost\<close> answers 400 exactly when the content or the community id is
  missing. Its response and the posts it leaves do not depend on the communities of the
  store: a request with both fields that the Post schema accepts is answered 201 and its
  post is persisted, whether or not the community exists or has the author as a member.
\<close>

theorem createPost_ignores_communities:
  "(status (snd (createPost env s r)) = 400
      \<longleftrightarrow> falsy (body_content r) \<or> falsy (body_communityId r))
   \<and> snd (createPost env (s\<lparr>communities := cs\<rparr>) r) = snd (createPost env s r)
   \<and> posts (fst (createPost env (s\<lparr>communities := cs\<rparr>) r)) = posts (fst (createPost env s r))
   \<and> (\<not> falsy (body_content r) \<longrightarrow> \<not> falsy (body_communityId r)
        \<longrightarrow> postSchemaError env (newPostData env r) = None \<longrightarrow> io_registered env
        \<longrightarrow> status (snd (createPost env s r)) = 201
            \<and> posts (fst (createPost env s r)) = posts s @ [newPostData env r])"
proof (intro conjI impI)
  show "status (snd (createPost env s r)) = 400
      \<longleftrightarrow> falsy (body_content r) \<or> falsy (body_communityId r)"
    by (auto simp: createPost_def Post_create_def emit_def reply_def Let_def
        split: option.splits)
next
  show "snd (createPost env (s\<lparr>communities := cs\<rparr>) r) = snd (createPost env s r)"
    by (rule createPost_response_communities)
next
  show "posts (fst (createPost env (s\<lparr>communities := cs\<rparr>) r)) = posts (fst (createPost env s r))"
    by (rule createPost_posts_communities)
next
  assume "\<not> falsy (body_content r)" "\<not> falsy (body_communityId r)"
    "postSchemaError env (newPostData env r) = None" "io_registered env"
  then show "status (snd (createPost env s r)) = 201"
    by (rule createPost_accepts)
next
  assume "\<not> falsy (body_content r)" "\<not> falsy (body_communityId r)"
    "postSchemaError env (newPostData env r) = None" "io_registered env"
  then show "posts (fst (createPost env s r)) = posts s @ [newPostData env r]"
    by (rule createPost_accepts)
qed

theorem createPost_ignores_communities_witness:
  "communities empty_state = []
   \<and> isMember (sample_community id_a ''general'' Public four_members []) ''u9'' = False
   \<and> status (snd (createPost sample_post_env empty_state stranger_post_request)) = 201
   \<and> posts (fst (createPost sample_post_env empty_state stranger_post_request))
       = [newPostData sample_post_env stranger_post_request]
   \<and> status (snd (createPost sample_post_env posting_state stranger_post_request)) = 201
   \<and> status (snd (createPost sample_post_env empty_state
                     (stranger_post_request\<lparr>body_communityId := None\<rparr>))) = 400"
proof -
  have f: "\<not> falsy (body_content stranger_post_request)"
    "\<not> falsy (body_communityId stranger_post_request)"
    "falsy (body_communityId (stranger_post_request\<lparr>body_communityId := None\<rparr>))"
    by (simp_all add: stranger_post_request_def falsy_def id_b_def)
  have e: "postSchemaError sample_post_env (newPostData sample_post_env stranger_post_request) = None"
    "io_registered sample_post_env"
    by (simp_all add: sample_post_env_def)
  from createPost_ignores_communities [of sample_post_env empty_state stranger_post_request]
    createPost_ignores_communities [of sample_post_env posting_state stranger_post_request]
    createPost_ignores_communities [of sample_post_env empty_state
      "stranger_post_request\<lparr>body_communityId := None\<rparr>"]
    f e
  show ?thesis
    by (simp add: empty_state_def isMember_def sample_community_def four_members_def)
qed

subsection \<open>Registration\<close>

text \<open>
  C5 fails on the branch of the missing fields, the one branch of \<open>register\<close> that
  returns without removing the staged file: the registration without a username is
  answered 400 and its file is still on the disk.
\<close>

theorem register_missing_field_keeps_file:
  "req_file no_username_request = Some staged_upload
   \<and> files staged_state = [upload_path staged_upload]
   \<and> status (snd (register sample_auth_env staged_state no_username_request)) = 400
   \<and> files (fst (register sample_auth_env staged_state no_username_request))
       = [upload_path staged_upload]"
  by (simp add: register_def register_try_def no_username_request_def
      register_request_with_bio_def staged_state_def empty_state_def staged_upload_def
      falsy_def reply_def)

text \<open>
  C8 fails for the bio of 251 characters: the branch of the bio length is taken, its call
  of \<open>fs.unlinkSync\<close> throws and the handler answers 500, not the 400 of the validation.
  The bio of 250 characters passes the check, and the registration succeeds.
\<close>

theorem register_bio_251_answers_500:
  "length (replicate 251 CHR ''a'') = 251
   \<and> register_try sample_auth_env staged_state (register_request_with_bio (replicate 251 CHR ''a''))
       = Inl (TypeError ''fs.unlinkSync is not a function'')
   \<and> snd (register sample_auth_env staged_state (register_request_with_bio (replicate 251 CHR ''a'')))
       = reply 500 (Success False) ''fs.unlinkSync is not a function''
   \<and> files (fst (register sample_auth_env staged_state
                     (register_request_with_bio (replicate 251 CHR ''a'')))) = []
   \<and> status (snd (register sample_auth_env staged_state
                     (register_request_with_bio (replicate 250 CHR ''a'')))) = 201"
proof -
  have valid: "email_match ''ann@example.com''" by (simp add: line_terminator_def)
  have try251: "register_try sample_auth_env staged_state
                  (register_request_with_bio (replicate 251 CHR ''a''))
                = Inl (TypeError ''fs.unlinkSync is not a function'')"
    using valid
    by (simp add: register_try_def register_request_with_bio_def falsy_def falsy_field_def
        text_of_def unlink_and_reply_def fs_unlinkSync_def)
  have r251: "register sample_auth_env staged_state (register_request_with_bio (replicate 251 CHR ''a''))
              = (staged_state\<lparr>files := []\<rparr>, reply 500 (Success False) ''fs.unlinkSync is not a function'')"
    unfolding register_def try251
    by (simp add: register_request_with_bio_def staged_upload_def
        fs_unlink_def staged_state_def empty_state_def or_else_def error_message_def)
  have r250: "status (snd (register sample_auth_env staged_state
                     (register_request_with_bio (replicate 250 CHR ''a'')))) = 201"
    using valid
    by (simp add: register_def register_try_def register_request_with_bio_def falsy_def
        falsy_field_def text_of_def staged_upload_def sample_auth_env_def staged_state_def
        empty_state_def User_create_def Let_def)
  show ?thesis by (simp add: try251 r251 r250)
qed

subsection \<open>Forgotten passwords\<close>

text \<open>
  C6 holds as far as the status goes and fails for the rest of the response: for the
  same address, the answer for an account that exists has another message and carries
  the one-time password, the answer for one that does not exist carries nothing.
\<close>

theorem forgotPassword_tells_accounts_apart:
  "snd (forgotPassword sample_auth_env empty_state (Some ''ann@example.com''))
     = reply 200 (Success True)
         ''If the account exists, a password reset code has been sent to your notifications.''
   \<and> snd (forgotPassword sample_auth_env ann_state (Some ''ann@example.com''))
     = \<lparr>status = 200, flag = Success True,
        message = Some ''Password reset code successfully sent to your notifications.'',
        payload = OtpField ''654321''\<rparr>
   \<and> snd (forgotPassword sample_auth_env ann_state (Some ''ann@example.com''))
       \<noteq> snd (forgotPassword sample_auth_env empty_state (Some ''ann@example.com''))"
  by (simp add: forgotPassword_def falsy_def text_of_def empty_state_def ann_state_def ann_def
      getResetPasswordOTP_def sample_auth_env_def reply_def Let_def)

subsection \<open>Resetting a password\<close>

lemma find_after_save:
  "find P xs = Some u \<Longrightarrow> P u' \<Longrightarrow>
     find P (map (\<lambda>x. if f x = f u then u' else x) xs) = Some u'"
  by (induction xs) (auto split: if_splits)

lemma resetPassword_no_code:
  assumes "find (\<lambda>u. user_email u = e) (users s) = Some u"
    and "resetPasswordToken u = None"
  shows "status (snd (resetPassword env s (Some e) otp pw)) = 400"
  using assms
  by (simp add: resetPassword_def verifyResetPasswordOTP_def reply_def text_of_def)

text \<open>
  C7. A well-formed \<open>resetPassword\<close> request (email, code and new password present,
  the new password of six characters or more) of an existing user whose code does not
  verify is answered 400 with the message of the invalid code, and the stored code and
  its expiry are cleared: every later \<open>resetPassword\<close> for that email is answered 400,
  whatever code it submits and whenever, as long as the store is the one this call left.
\<close>

theorem resetPassword_invalid_clears_code:
  assumes "find (\<lambda>u. user_email u = e) (users s) = Some u"
    and "e \<noteq> []" "otp \<noteq> []" "6 \<le> length pw"
    and "\<not> verifyResetPasswordOTP env u otp"
  shows "snd (resetPassword env s (Some e) (Some otp) (Some pw))
           = reply 400 (Success False)
               ''Invalid or expired OTP. Please restart the forgot password process.''
       \<and> (\<exists>u'. find (\<lambda>u. user_email u = e)
                   (users (fst (resetPassword env s (Some e) (Some otp) (Some pw)))) = Some u'
              \<and> resetPasswordToken u' = None \<and> resetPasswordExpires u' = None)
       \<and> status (snd (resetPassword env'
                         (fst (resetPassword env s (Some e) (Some otp) (Some pw)))
                         (Some e) otp' pw')) = 400"
proof -
  let ?u' = "u\<lparr>resetPasswordToken := None, resetPasswordExpires := None\<rparr>"
  have call: "resetPassword env s (Some e) (Some otp) (Some pw)
                = (saveUser ?u' s,
                   reply 400 (Success False)
                     ''Invalid or expired OTP. Please restart the forgot password process.'')"
    using assms by (auto simp: resetPassword_def falsy_def text_of_def)
  from assms(1) have "user_email u = e" by (auto dest: find_Some_holds)
  then have "user_email ?u' = e" by simp
  with assms(1)
  have "find (\<lambda>u. user_email u = e)
          (map (\<lambda>x. if user_id x = user_id u then ?u' else x) (users s)) = Some ?u'"
    by (rule find_after_save)
  then have stored: "find (\<lambda>u. user_email u = e) (users (saveUser ?u' s)) = Some ?u'"
    by (simp add: saveUser_def)
  have later: "status (snd (resetPassword env' (saveUser ?u' s) (Some e) otp' pw')) = 400"
    using stored by (rule resetPassword_no_code) simp
  from stored later show ?thesis by (simp add: call)
qed

theorem resetPassword_invalid_clears_code_witness:
  "find (\<lambda>u. user_email u = ''ann@example.com'') (users ann_state) = Some ann
   \<and> verifyResetPasswordOTP sample_auth_env ann ''123456''
   \<and> verifyResetPasswordOTP sample_auth_env ann ''000000'' = False
   \<and> status (snd (resetPassword sample_auth_env ann_state
                     (Some ''ann@example.com'') (Some ''000000'') (Some ''secret2''))) = 400
   \<and> map resetPasswordToken
        (users (fst (resetPassword sample_auth_env ann_state
                       (Some ''ann@example.com'') (Some ''000000'') (Some ''secret2'')))) = [None]
   \<and> status (snd (resetPassword sample_auth_env
                     (fst (resetPassword sample_auth_env ann_state
                             (Some ''ann@example.com'') (Some ''000000'') (Some ''secret2'')))
                     (Some ''ann@example.com'') (Some ''123456'') (Some ''secret2''))) = 400"
proof -
  have f: "find (\<lambda>u. user_email u = ''ann@example.com'') (users ann_state) = Some ann"
    by (simp add: ann_state_def empty_state_def ann_def)
  have v: "verifyResetPasswordOTP sample_auth_env ann ''123456''"
    and n: "\<not> verifyResetPasswordOTP sample_auth_env ann ''000000''"
    by (simp_all add: verifyResetPasswordOTP_def sample_auth_env_def ann_def)
  have t: "map resetPasswordToken
        (users (fst (resetPassword sample_auth_env ann_state
                       (Some ''ann@example.com'') (Some ''000000'') (Some ''secret2'')))) = [None]"
    using n
    by (simp add: resetPassword_def falsy_def text_of_def ann_state_def empty_state_def
        saveUser_def) (simp add: ann_def)
  from resetPassword_invalid_clears_code [OF f _ _ _ n, of "''secret2''"
      sample_auth_env "Some ''123456''" "Some ''secret2''"]
  show ?thesis using f v n t by (simp add: reply_def)
qed

text \<open>
  Without the restriction to well-formed requests the property fails: a wrong code sent
  with a new password of three characters is answered by the validation of the password,
  the stored code stays, and the correct code submitted next resets the password.
\<close>

theorem resetPassword_short_password_keeps_code:
  "verifyResetPasswordOTP sample_auth_env ann ''000000'' = False
   \<and> resetPassword sample_auth_env ann_state (Some ''ann@example.com'') (Some ''000000'') (Some ''abc'')
       = (ann_state, reply 400 StatusFail ''New password must be at least 6 characters long.'')
   \<and> map resetPasswordToken
        (users (fst (resetPassword sample_auth_env ann_state
                       (Some ''ann@example.com'') (Some ''000000'') (Some ''abc'')))) = [Some ''123456'']
   \<and> status (snd (resetPassword sample_auth_env
                     (fst (resetPassword sample_auth_env ann_state
                             (Some ''ann@example.com'') (Some ''000000'') (Some ''abc'')))
                     (Some ''ann@example.com'') (Some ''123456'') (Some ''secret2''))) = 200"
proof -
  have c: "resetPassword sample_auth_env ann_state (Some ''ann@example.com'') (Some ''000000'') (Some ''abc'')
       = (ann_state, reply 400 StatusFail ''New password must be at least 6 characters long.'')"
    by (simp add: resetPassword_def falsy_def text_of_def)
  have n: "verifyResetPasswordOTP sample_auth_env ann ''000000'' = False"
    and v: "verifyResetPasswordOTP sample_auth_env ann ''123456''"
    by (simp_all add: verifyResetPasswordOTP_def sample_auth_env_def ann_def)
  have t: "map resetPasswordToken (users ann_state) = [Some ''123456'']"
    by (simp add: ann_state_def empty_state_def ann_def)
  have f: "find (\<lambda>u. user_email u = ''ann@example.com'') (users ann_state) = Some ann"
    by (simp add: ann_state_def empty_state_def ann_def)
  have ok: "status (snd (resetPassword sample_auth_env ann_state
              (Some ''ann@example.com'') (Some ''123456'') (Some ''secret2''))) = 200"
    using f v by (simp add: resetPassword_def falsy_def text_of_def reply_def)
  show ?thesis by (simp add: c n t ok)
qed

end
